theory Spec2Isabelle
  imports Main
begin

section \<open>Rank settings of the DeepSpeed inference examples\<close>

text \<open>
  The tutorial notebook \<^verbatim>\<open>DeepSpeed_Summarizing_Translating.ipynb\<close> shows two
  example programs, one for summarization and one for translation. Both begin with

  \<^verbatim>\<open>local_rank = int(os.getenv('LOCAL_RANK', '0'))\<close>

  \<^verbatim>\<open>world_size = int(os.getenv('WORLD_SIZE', '4'))\<close>

  and then hand \<^verbatim>\<open>local_rank\<close> to the Hugging Face pipeline as \<^verbatim>\<open>device\<close> and
  \<^verbatim>\<open>world_size\<close> to \<^verbatim>\<open>deepspeed.init_inference\<close> as \<^verbatim>\<open>mp_size\<close>.
\<close>

subsection \<open>Strings and the environment\<close>

text \<open>A Python \<^verbatim>\<open>str\<close> is a sequence of Unicode code points, so it is modelled as a
  list of natural numbers. \<open>str\<close> turns an ASCII literal of the program text into
  such a list. \<^verbatim>\<open>os.environ\<close> maps names to values, both of them \<^verbatim>\<open>str\<close>; the
  interpreter has decoded the bytes of the process environment before the program
  runs.\<close>

type_synonym py_str = "nat list"

definition str :: "string \<Rightarrow> py_str" where
  "str s = map of_char s"

type_synonym environ = "py_str \<rightharpoonup> py_str"

text \<open>\<^verbatim>\<open>os.getenv(key, default)\<close>: the value of the variable, or the default when the
  variable is not set.\<close>

definition getenv :: "environ \<Rightarrow> py_str \<Rightarrow> py_str \<Rightarrow> py_str" where
  "getenv env key dflt = (case env key of None \<Rightarrow> dflt | Some v \<Rightarrow> v)"

subsection \<open>Character tables\<close>

text \<open>
  The characters \<^verbatim>\<open>int\<close> skips as whitespace: the six ASCII ones of C's \<^verbatim>\<open>isspace\<close>,
  and the Unicode whitespace characters from U+007F upwards. (U+001C to U+001F are
  whitespace for \<^verbatim>\<open>str.isspace\<close> but not for \<^verbatim>\<open>int\<close>.)
\<close>

definition whitespace :: "nat list" where
  "whitespace =
     [0x09, 0x0A, 0x0B, 0x0C, 0x0D, 0x20, 0x85, 0xA0, 0x1680,
      0x2000, 0x2001, 0x2002, 0x2003, 0x2004, 0x2005, 0x2006, 0x2007, 0x2008,
      0x2009, 0x200A, 0x2028, 0x2029, 0x202F, 0x205F, 0x3000]"

definition is_space :: "nat \<Rightarrow> bool" where
  "is_space c \<longleftrightarrow> c \<in> set whitespace"

text \<open>
  The decimal digits of Unicode 12.1, the version built into the interpreter the
  notebook records (3.8.12): 63 runs of ten consecutive code points, each run holding
  the digits zero to nine in order. The list holds the code point of each zero.
\<close>

definition decimal_zeros :: "nat list" where
  "decimal_zeros =
     [0x30, 0x660, 0x6F0, 0x7C0, 0x966, 0x9E6, 0xA66, 0xAE6,
      0xB66, 0xBE6, 0xC66, 0xCE6, 0xD66, 0xDE6, 0xE50, 0xED0,
      0xF20, 0x1040, 0x1090, 0x17E0, 0x1810, 0x1946, 0x19D0, 0x1A80,
      0x1A90, 0x1B50, 0x1BB0, 0x1C40, 0x1C50, 0xA620, 0xA8D0, 0xA900,
      0xA9D0, 0xA9F0, 0xAA50, 0xABF0, 0xFF10, 0x104A0, 0x10D30, 0x11066,
      0x110F0, 0x11136, 0x111D0, 0x112F0, 0x11450, 0x114D0, 0x11650, 0x116C0,
      0x11730, 0x118E0, 0x11C50, 0x11D50, 0x11DA0, 0x16A60, 0x16B50, 0x1D7CE,
      0x1D7D8, 0x1D7E2, 0x1D7EC, 0x1D7F6, 0x1E140, 0x1E2F0, 0x1E950]"

definition unicode_decimal :: "nat \<Rightarrow> nat option" where
  "unicode_decimal c =
     (case find (\<lambda>z. z \<le> c \<and> c \<le> z + 9) decimal_zeros of
        None \<Rightarrow> None
      | Some z \<Rightarrow> Some (c - z))"

subsection \<open>Python's \<^verbatim>\<open>int\<close> on a string\<close>

text \<open>
  \<^verbatim>\<open>int(s)\<close> in base 10 skips leading whitespace, reads an optional sign, requires a
  digit, scans digits and underscores, skips trailing whitespace and requires the end
  of the string. Anything else raises \<^verbatim>\<open>ValueError\<close>. Version 3.8.12 puts no limit
  on the number of digits.

  The scan remembers whether the previous character was an underscore: two
  underscores in a row, and an underscore that is not followed by a digit, are
  errors. It stops at the first character that is neither a digit nor an underscore
  and returns the accumulated number and the rest of the string.
\<close>

datatype error = ValueError

fun scan_digits :: "int \<Rightarrow> bool \<Rightarrow> py_str \<Rightarrow> (int \<times> py_str) option" where
  "scan_digits acc prev_underscore [] =
     (if prev_underscore then None else Some (acc, []))"
| "scan_digits acc prev_underscore (c # cs) =
     (case unicode_decimal c of
        Some d \<Rightarrow> scan_digits (acc * 10 + int d) False cs
      | None \<Rightarrow>
          if c = 0x5F then
            (if prev_underscore then None else scan_digits acc True cs)
          else if prev_underscore then None
          else Some (acc, c # cs))"

fun strip_sign :: "py_str \<Rightarrow> int \<times> py_str" where
  "strip_sign [] = (1, [])"
| "strip_sign (c # cs) =
     (if c = 0x2B then (1, cs)
      else if c = 0x2D then (- 1, cs)
      else (1, c # cs))"

definition py_int :: "py_str \<Rightarrow> error + int" where
  "py_int s =
     (case strip_sign (dropWhile is_space s) of
        (sign, []) \<Rightarrow> Inl ValueError
      | (sign, c # cs) \<Rightarrow>
          (case unicode_decimal c of
             None \<Rightarrow> Inl ValueError
           | Some d \<Rightarrow>
               (case scan_digits (int d) False cs of
                  None \<Rightarrow> Inl ValueError
                | Some (n, rest) \<Rightarrow>
                    if dropWhile is_space rest = [] then Inr (sign * n)
                    else Inl ValueError)))"

subsection \<open>The two settings\<close>

definition local_rank :: "environ \<Rightarrow> error + int" where
  "local_rank env = py_int (getenv env (str ''LOCAL_RANK'') (str ''0''))"

definition world_size :: "environ \<Rightarrow> error + int" where
  "world_size env = py_int (getenv env (str ''WORLD_SIZE'') (str ''4''))"

subsection \<open>The example programs\<close>

text \<open>A run of an example program is described by the arguments of its two library
  calls, or by the exception that ended it. The assignment of \<^verbatim>\<open>local_rank\<close> is
  executed first, so a \<^verbatim>\<open>ValueError\<close> there ends the program before
  \<^verbatim>\<open>world_size\<close> is evaluated.\<close>

record pipeline_args =
  task :: string
  model :: string
  tokenizer :: string
  device :: int

datatype torch_dtype = TorchFloat

record init_inference_args =
  mp_size :: int
  dtype :: torch_dtype
  injection_policy :: "(string \<times> string list) list"

record example_calls =
  pipeline_call :: pipeline_args
  init_inference_call :: init_inference_args

definition t5_injection_policy :: "(string \<times> string list) list" where
  "t5_injection_policy =
     [(''T5Block'', [''SelfAttention.o'', ''EncDecAttention.o'', ''DenseReluDense.wo''])]"

definition deepspeed_summarization :: "environ \<Rightarrow> error + example_calls" where
  "deepspeed_summarization env =
     (case local_rank env of
        Inl e \<Rightarrow> Inl e
      | Inr lr \<Rightarrow>
          (case world_size env of
             Inl e \<Rightarrow> Inl e
           | Inr ws \<Rightarrow>
               Inr \<lparr>pipeline_call =
                      \<lparr>task = ''summarization'', model = ''t5-base'',
                       tokenizer = ''t5-base'', device = lr\<rparr>,
                    init_inference_call =
                      \<lparr>mp_size = ws, dtype = TorchFloat,
                       injection_policy = t5_injection_policy\<rparr>\<rparr>))"

definition deepspeed_translation :: "environ \<Rightarrow> error + example_calls" where
  "deepspeed_translation env =
     (case local_rank env of
        Inl e \<Rightarrow> Inl e
      | Inr lr \<Rightarrow>
          (case world_size env of
             Inl e \<Rightarrow> Inl e
           | Inr ws \<Rightarrow>
               Inr \<lparr>pipeline_call =
                      \<lparr>task = ''translation_en_to_fr'', model = ''t5-base'',
                       tokenizer = ''t5-base'', device = lr\<rparr>,
                    init_inference_call =
                      \<lparr>mp_size = ws, dtype = TorchFloat,
                       injection_policy = t5_injection_policy\<rparr>\<rparr>))"

section \<open>What an integer literal denotes\<close>

text \<open>
  The integer parse of a string, stated without reference to the scanning code: a
  string is an integer literal when it is made of whitespace, an optional sign, one or
  more decimal digits of which every one but the first may have a single underscore in
  front of it, and whitespace again. It denotes the number its digits spell in
  positional notation, negated after a minus sign.

  A digit of a literal is given as a triple: whether an underscore stands in front of
  it, its code point, and its digit value.
\<close>

primrec positional :: "nat list \<Rightarrow> int" where
  "positional [] = 0"
| "positional (d # ds) = int d + 10 * positional ds"

text \<open>\<^const>\<open>positional\<close> takes the least significant digit first; a numeral is written
  with the most significant digit first.\<close>

definition decimal_value :: "nat list \<Rightarrow> int" where
  "decimal_value ds = positional (rev ds)"

fun digit_text :: "bool \<times> nat \<times> nat \<Rightarrow> py_str" where
  "digit_text (u, c, d) = (if u then [0x5F, c] else [c])"

fun digit_ok :: "bool \<times> nat \<times> nat \<Rightarrow> bool" where
  "digit_ok (u, c, d) \<longleftrightarrow> unicode_decimal c = Some d"

fun digit_of :: "bool \<times> nat \<times> nat \<Rightarrow> nat" where
  "digit_of (u, c, d) = d"

definition int_literal :: "py_str \<Rightarrow> int \<Rightarrow> bool" where
  "int_literal s n \<longleftrightarrow>
     (\<exists>ws1 sg sign digits ws2.
        s = ws1 @ sg @ concat (map digit_text digits) @ ws2 \<and>
        list_all is_space ws1 \<and> list_all is_space ws2 \<and>
        (sg = [] \<and> sign = 1 \<or> sg = [0x2B] \<and> sign = 1 \<or> sg = [0x2D] \<and> sign = - 1) \<and>
        digits \<noteq> [] \<and> \<not> fst (hd digits) \<and> list_all digit_ok digits \<and>
        n = sign * decimal_value (map digit_of digits))"

text \<open>The plain case: a non-empty string of the ASCII digits \<^verbatim>\<open>0\<close> to \<^verbatim>\<open>9\<close>, and
  the number it spells.\<close>

definition ascii_digits :: "py_str \<Rightarrow> bool" where
  "ascii_digits s \<longleftrightarrow> s \<noteq> [] \<and> list_all (\<lambda>c. 48 \<le> c \<and> c \<le> 57) s"

definition ascii_value :: "py_str \<Rightarrow> int" where
  "ascii_value s = decimal_value (map (\<lambda>c. c - 48) s)"

section \<open>Two concrete environments\<close>

text \<open>A launch in which the launcher exports \<^verbatim>\<open>WORLD_SIZE=16\<close> and leaves
  \<^verbatim>\<open>LOCAL_RANK\<close> unset, one in which it exports \<^verbatim>\<open>LOCAL_RANK=12\<close> and leaves
  \<^verbatim>\<open>WORLD_SIZE\<close> unset, and the calls the example programs make in the first.\<close>

definition size_env :: environ where
  "size_env = [str ''WORLD_SIZE'' \<mapsto> str ''16'']"

definition rank_env :: environ where
  "rank_env = [str ''LOCAL_RANK'' \<mapsto> str ''12'']"

definition size_env_summarization :: example_calls where
  "size_env_summarization =
     \<lparr>pipeline_call =
        \<lparr>task = ''summarization'', model = ''t5-base'', tokenizer = ''t5-base'',
         device = 0\<rparr>,
      init_inference_call =
        \<lparr>mp_size = 16, dtype = TorchFloat, injection_policy = t5_injection_policy\<rparr>\<rparr>"

definition size_env_translation :: example_calls where
  "size_env_translation =
     \<lparr>pipeline_call =
        \<lparr>task = ''translation_en_to_fr'', model = ''t5-base'', tokenizer = ''t5-base'',
         device = 0\<rparr>,
      init_inference_call =
        \<lparr>mp_size = 16, dtype = TorchFloat, injection_policy = t5_injection_policy\<rparr>\<rparr>"

section \<open>Properties\<close>

subsection \<open>The character tables\<close>

lemma whitespace_not_decimal: "list_all (\<lambda>c. unicode_decimal c = None) whitespace"
  by (simp add: whitespace_def unicode_decimal_def decimal_zeros_def)

lemma whitespace_not_special:
  "list_all (\<lambda>c. c \<noteq> 0x5F \<and> c \<noteq> 0x2B \<and> c \<noteq> 0x2D) whitespace"
  by (simp add: whitespace_def)

lemma space_not_decimal: "is_space c \<Longrightarrow> unicode_decimal c = None"
  using whitespace_not_decimal by (simp add: is_space_def list_all_iff)

lemma space_not_special: "is_space c \<Longrightarrow> c \<noteq> 0x5F \<and> c \<noteq> 0x2B \<and> c \<noteq> 0x2D"
  using whitespace_not_special unfolding is_space_def list_all_iff by blast

lemma underscore_not_decimal: "unicode_decimal 0x5F = None"
  by (simp add: unicode_decimal_def decimal_zeros_def)

lemma sign_not_decimal: "unicode_decimal 0x2B = None" "unicode_decimal 0x2D = None"
  by (simp_all add: unicode_decimal_def decimal_zeros_def)

lemma sign_not_space: "\<not> is_space 0x2B" "\<not> is_space 0x2D"
  by (simp_all add: is_space_def whitespace_def)

lemma ascii_decimal: "48 \<le> c \<Longrightarrow> c \<le> 57 \<Longrightarrow> unicode_decimal c = Some (c - 48)"
  by (simp add: unicode_decimal_def decimal_zeros_def)

lemma decimal_not_space: "unicode_decimal c = Some d \<Longrightarrow> \<not> is_space c"
  using space_not_decimal by fastforce

lemma decimal_not_special:
  "unicode_decimal c = Some d \<Longrightarrow> c \<noteq> 0x5F \<and> c \<noteq> 0x2B \<and> c \<noteq> 0x2D"
  using underscore_not_decimal sign_not_decimal by fastforce

subsection \<open>Positional value\<close>

lemma positional_append: "positional (xs @ ys) = positional xs + 10 ^ length xs * positional ys"
  by (induction xs) (simp_all add: algebra_simps)

lemma decimal_value_Cons:
  "decimal_value (d # ds) = int d * 10 ^ length ds + decimal_value ds"
  by (simp add: decimal_value_def positional_append)

lemma foldl_decimal_value:
  "foldl (\<lambda>a d. a * 10 + int d) acc ds = acc * 10 ^ length ds + decimal_value ds"
proof (induction ds arbitrary: acc)
  case Nil
  show ?case by (simp add: decimal_value_def)
next
  case (Cons d ds)
  have "foldl (\<lambda>a d. a * 10 + int d) acc (d # ds) =
        (acc * 10 + int d) * 10 ^ length ds + decimal_value ds"
    by (simp add: Cons.IH)
  also have "\<dots> = acc * 10 ^ length (d # ds) + decimal_value (d # ds)"
    by (simp add: decimal_value_Cons algebra_simps)
  finally show ?case .
qed

subsection \<open>The scan\<close>

lemma scan_digits_literal:
  assumes "list_all digit_ok digits"
    and "prev \<longrightarrow> digits \<noteq> [] \<and> \<not> fst (hd digits)"
    and "rest = [] \<or> unicode_decimal (hd rest) = None \<and> hd rest \<noteq> 0x5F"
  shows "scan_digits acc prev (concat (map digit_text digits) @ rest) =
         Some (foldl (\<lambda>a d. a * 10 + int d) acc (map digit_of digits), rest)"
  using assms
proof (induction digits arbitrary: acc prev)
  case Nil
  then show ?case by (cases rest) auto
next
  case (Cons x digits)
  obtain u c d where x: "x = (u, c, d)" by (cases x)
  from Cons.prems(1) have c: "unicode_decimal c = Some d" and ok: "list_all digit_ok digits"
    by (simp_all add: x)
  have step: "scan_digits a False (concat (map digit_text digits) @ rest) =
         Some (foldl (\<lambda>a d. a * 10 + int d) a (map digit_of digits), rest)" for a
    using Cons.IH [OF ok _ Cons.prems(3)] by simp
  show ?case
  proof (cases u)
    case True
    with Cons.prems(2) have "\<not> prev" by (simp add: x)
    with True show ?thesis by (simp add: x c underscore_not_decimal step)
  next
    case False
    then show ?thesis by (simp add: x c step)
  qed
qed

lemma scan_digits_shape:
  assumes "scan_digits acc prev cs = Some (n, rest)"
  shows "\<exists>digits. cs = concat (map digit_text digits) @ rest \<and> list_all digit_ok digits \<and>
           (prev \<longrightarrow> digits \<noteq> [] \<and> \<not> fst (hd digits)) \<and>
           n = foldl (\<lambda>a d. a * 10 + int d) acc (map digit_of digits) \<and>
           (rest = [] \<or> unicode_decimal (hd rest) = None \<and> hd rest \<noteq> 0x5F)"
  using assms
proof (induction cs arbitrary: acc prev)
  case Nil
  then have "\<not> prev" "n = acc" "rest = []" by (auto split: if_splits)
  then show ?case by (intro exI [of _ "[]"]) simp
next
  case (Cons c cs)
  show ?case
  proof (cases "unicode_decimal c")
    case (Some d)
    with Cons.prems have "scan_digits (acc * 10 + int d) False cs = Some (n, rest)" by simp
    from Cons.IH [OF this] obtain digits where
      d: "cs = concat (map digit_text digits) @ rest" "list_all digit_ok digits"
         "n = foldl (\<lambda>a d. a * 10 + int d) (acc * 10 + int d) (map digit_of digits)"
         "rest = [] \<or> unicode_decimal (hd rest) = None \<and> hd rest \<noteq> 0x5F"
      by blast
    show ?thesis
      by (intro exI [of _ "(False, c, d) # digits"]) (use d Some in simp)
  next
    case None
    show ?thesis
    proof (cases "c = 0x5F")
      case True
      with None Cons.prems have np: "\<not> prev" and run: "scan_digits acc True cs = Some (n, rest)"
        by (auto split: if_splits)
      from Cons.IH [OF run] obtain digits where
        d: "cs = concat (map digit_text digits) @ rest" "list_all digit_ok digits"
           "digits \<noteq> []" "\<not> fst (hd digits)"
           "n = foldl (\<lambda>a d. a * 10 + int d) acc (map digit_of digits)"
           "rest = [] \<or> unicode_decimal (hd rest) = None \<and> hd rest \<noteq> 0x5F"
        by blast
      from d(3,4) obtain c' d' ds where ds: "digits = (False, c', d') # ds"
        by (cases digits) auto
      show ?thesis
        by (intro exI [of _ "(True, c', d') # ds"]) (use d ds True np in simp)
    next
      case False
      with None Cons.prems have "\<not> prev" "n = acc" "rest = c # cs"
        by (auto split: if_splits)
      with None False show ?thesis by (intro exI [of _ "[]"]) simp
    qed
  qed
qed


subsection \<open>The parse\<close>

lemma dropWhile_leading:
  assumes "list_all is_space ws" and "r = [] \<or> \<not> is_space (hd r)"
  shows "dropWhile is_space (ws @ r) = r"
proof -
  have "dropWhile is_space r = r" using assms(2) by (cases r) auto
  with assms(1) show ?thesis by (simp add: dropWhile_append list_all_iff)
qed

lemma py_int_literal:
  assumes "int_literal s n"
  shows "py_int s = Inr n"
proof -
  from assms obtain ws1 sg sign digits ws2 where
    s: "s = ws1 @ sg @ concat (map digit_text digits) @ ws2"
    and ws: "list_all is_space ws1" "list_all is_space ws2"
    and sg: "sg = [] \<and> sign = 1 \<or> sg = [0x2B] \<and> sign = 1 \<or> sg = [0x2D] \<and> sign = - 1"
    and ne: "digits \<noteq> []" "\<not> fst (hd digits)"
    and ok: "list_all digit_ok digits"
    and n: "n = sign * decimal_value (map digit_of digits)"
    unfolding int_literal_def by blast
  from ne obtain c d ds where digits: "digits = (False, c, d) # ds"
    by (cases digits) auto
  from ok have c: "unicode_decimal c = Some d" and ds: "list_all digit_ok ds"
    by (simp_all add: digits)
  define tail where "tail = concat (map digit_text ds) @ ws2"
  have body: "concat (map digit_text digits) @ ws2 = c # tail"
    by (simp add: digits tail_def)
  have rest: "ws2 = [] \<or> unicode_decimal (hd ws2) = None \<and> hd ws2 \<noteq> 0x5F"
    using ws(2) space_not_decimal space_not_special by (cases ws2) auto
  have scan: "scan_digits (int d) False tail =
      Some (foldl (\<lambda>a d. a * 10 + int d) (int d) (map digit_of ds), ws2)"
    unfolding tail_def by (rule scan_digits_literal [OF ds _ rest]) simp
  have val: "foldl (\<lambda>a d. a * 10 + int d) (int d) (map digit_of ds) =
      decimal_value (map digit_of digits)"
    by (simp add: foldl_decimal_value decimal_value_Cons digits)
  have first: "\<not> is_space (hd (sg @ c # tail))"
    using sg sign_not_space decimal_not_space [OF c] by auto
  have drop: "dropWhile is_space s = sg @ c # tail"
    unfolding s body by (rule dropWhile_leading [OF ws(1)]) (use first in simp)
  have strip: "strip_sign (sg @ c # tail) = (sign, c # tail)"
    using sg decimal_not_special [OF c] by auto
  show ?thesis
    using ws(2) by (simp add: py_int_def drop strip c scan val n list_all_iff)
qed

lemma py_int_shape:
  assumes "py_int s = Inr n"
  shows "int_literal s n"
proof -
  define ws1 where "ws1 = takeWhile is_space s"
  define r where "r = dropWhile is_space s"
  have s: "s = ws1 @ r" by (simp add: ws1_def r_def)
  have ws1: "list_all is_space ws1"
    by (simp add: ws1_def list_all_iff) (meson set_takeWhileD)
  obtain sign body where strip: "strip_sign r = (sign, body)" by (cases "strip_sign r")
  from assms obtain c cs d n' rest where
    body: "body = c # cs" and c: "unicode_decimal c = Some d"
    and scan: "scan_digits (int d) False cs = Some (n', rest)"
    and tail: "dropWhile is_space rest = []" and n: "n = sign * n'"
    by (auto simp add: py_int_def r_def [symmetric] strip
        split: list.splits option.splits if_splits)
  from strip body obtain sg where
    sg: "sg = [] \<and> sign = 1 \<or> sg = [0x2B] \<and> sign = 1 \<or> sg = [0x2D] \<and> sign = - 1"
    and r: "r = sg @ c # cs"
    by (cases r) (auto split: if_splits)
  from scan_digits_shape [OF scan] obtain ds where
    cs: "cs = concat (map digit_text ds) @ rest" and ds: "list_all digit_ok ds"
    and n': "n' = foldl (\<lambda>a d. a * 10 + int d) (int d) (map digit_of ds)"
    by blast
  define digits where "digits = (False, c, d) # ds"
  have ws2: "list_all is_space rest"
    using tail by (simp add: list_all_iff)
  have val: "n' = decimal_value (map digit_of digits)"
    by (simp add: n' foldl_decimal_value decimal_value_Cons digits_def)
  have shape: "s = ws1 @ sg @ concat (map digit_text digits) @ rest"
    by (simp add: s r cs digits_def)
  have "digits \<noteq> []" "\<not> fst (hd digits)" "list_all digit_ok digits"
    by (simp_all add: digits_def c ds)
  with shape ws1 ws2 sg val n show ?thesis
    unfolding int_literal_def by blast
qed

lemma py_int_iff: "py_int s = Inr n \<longleftrightarrow> int_literal s n"
  using py_int_literal py_int_shape by blast

lemma py_int_error_iff: "py_int s = Inl ValueError \<longleftrightarrow> \<not> (\<exists>n. int_literal s n)"
proof (cases "py_int s")
  case (Inl e)
  then show ?thesis by (cases e) (auto simp flip: py_int_iff)
next
  case (Inr n)
  then show ?thesis by (auto simp flip: py_int_iff)
qed

lemma ascii_digits_literal:
  assumes "ascii_digits s"
  shows "int_literal s (ascii_value s)"
proof -
  define digits where "digits = map (\<lambda>c. (False, c, c - 48)) s"
  from assms have ne: "s \<noteq> []" and rng: "\<forall>c\<in>set s. 48 \<le> c \<and> c \<le> 57"
    by (simp_all add: ascii_digits_def list_all_iff)
  have spell: "concat (map digit_text digits) = s"
    unfolding digits_def by (induction s) simp_all
  have ok: "list_all digit_ok digits"
    using rng by (simp add: digits_def list_all_iff ascii_decimal)
  have val: "map digit_of digits = map (\<lambda>c. c - 48) s"
    by (simp add: digits_def comp_def)
  have "s = [] @ [] @ concat (map digit_text digits) @ []" by (simp add: spell)
  moreover have "digits \<noteq> []" "\<not> fst (hd digits)"
    using ne by (simp_all add: digits_def hd_map)
  moreover have "ascii_value s = 1 * decimal_value (map digit_of digits)"
    by (simp add: ascii_value_def val)
  ultimately show ?thesis
    unfolding int_literal_def using ok
    by (intro exI [of _ "[]"] exI [of _ "1"] exI [of _ digits]) simp
qed

lemma py_int_ascii_digits: "ascii_digits s \<Longrightarrow> py_int s = Inr (ascii_value s)"
  by (rule py_int_literal [OF ascii_digits_literal])

subsection \<open>Examples of the parse\<close>

text \<open>The two defaults; a literal with whitespace (U+0020, U+3000), a sign, an
  underscore and a fullwidth digit (U+FF11); and strings that are no literals.\<close>

lemma py_int_default_rank: "py_int (str ''0'') = Inr 0"
  by (simp add: py_int_def str_def is_space_def whitespace_def unicode_decimal_def
      decimal_zeros_def)

lemma py_int_default_size: "py_int (str ''4'') = Inr 4"
  by (simp add: py_int_def str_def is_space_def whitespace_def unicode_decimal_def
      decimal_zeros_def)

lemma py_int_unicode_example: "py_int [0x20, 0x2D, 0xFF11, 0x5F, 0x36, 0x3000] = Inr (- 16)"
  by (simp add: py_int_def is_space_def whitespace_def unicode_decimal_def decimal_zeros_def)

lemma py_int_empty: "py_int [] = Inl ValueError"
  by (simp add: py_int_def)

lemma py_int_double_underscore: "py_int (str ''1__6'') = Inl ValueError"
  by (simp add: py_int_def str_def is_space_def whitespace_def unicode_decimal_def
      decimal_zeros_def)

lemma py_int_float_text: "py_int (str ''4.0'') = Inl ValueError"
  by (simp add: py_int_def str_def is_space_def whitespace_def unicode_decimal_def
      decimal_zeros_def)

subsection \<open>When the example programs reach their library calls\<close>

lemma summarization_starts_iff:
  "(\<exists>t. deepspeed_summarization env = Inr t) \<longleftrightarrow>
   (\<exists>lr ws. local_rank env = Inr lr \<and> world_size env = Inr ws)"
  by (auto simp add: deepspeed_summarization_def split: sum.splits)

lemma translation_starts_iff:
  "(\<exists>t. deepspeed_translation env = Inr t) \<longleftrightarrow>
   (\<exists>lr ws. local_rank env = Inr lr \<and> world_size env = Inr ws)"
  by (auto simp add: deepspeed_translation_def split: sum.splits)

lemma summarization_args:
  assumes "deepspeed_summarization env = Inr t"
  shows "local_rank env = Inr (device (pipeline_call t))"
    and "world_size env = Inr (mp_size (init_inference_call t))"
  using assms by (auto simp add: deepspeed_summarization_def split: sum.splits)

lemma translation_args:
  assumes "deepspeed_translation env = Inr t"
  shows "local_rank env = Inr (device (pipeline_call t))"
    and "world_size env = Inr (mp_size (init_inference_call t))"
  using assms by (auto simp add: deepspeed_translation_def split: sum.splits)

subsection \<open>Rank settings come from the environment\<close>

text \<open>
  Claim C10. In the summarization and translation example programs, \<^verbatim>\<open>local_rank\<close>
  evaluates to 0 when \<^verbatim>\<open>LOCAL_RANK\<close> is unset and \<^verbatim>\<open>world_size\<close> evaluates to 4 when
  \<^verbatim>\<open>WORLD_SIZE\<close> is unset. When a variable is set to \<open>v\<close>, the setting is the integer
  parse of \<open>v\<close>: it is the number \<open>n\<close> exactly when \<open>v\<close> is an integer literal denoting
  \<open>n\<close>, it is a \<^verbatim>\<open>ValueError\<close> exactly when \<open>v\<close> is no integer literal, and for a
  non-empty string of ASCII digits it is the number the digits spell. Whenever an
  example program reaches \<^verbatim>\<open>deepspeed.init_inference\<close>, the \<^verbatim>\<open>mp_size\<close> it passes is
  that \<^verbatim>\<open>world_size\<close>.
\<close>

theorem rank_settings_from_environment:
  "(case env (str ''LOCAL_RANK'') of
      None \<Rightarrow> local_rank env = Inr 0
    | Some v \<Rightarrow>
        (\<forall>n. local_rank env = Inr n \<longleftrightarrow> int_literal v n) \<and>
        (local_rank env = Inl ValueError \<longleftrightarrow> \<not> (\<exists>n. int_literal v n)) \<and>
        (ascii_digits v \<longrightarrow> local_rank env = Inr (ascii_value v))) \<and>
   (case env (str ''WORLD_SIZE'') of
      None \<Rightarrow> world_size env = Inr 4
    | Some v \<Rightarrow>
        (\<forall>n. world_size env = Inr n \<longleftrightarrow> int_literal v n) \<and>
        (world_size env = Inl ValueError \<longleftrightarrow> \<not> (\<exists>n. int_literal v n)) \<and>
        (ascii_digits v \<longrightarrow> world_size env = Inr (ascii_value v))) \<and>
   (\<forall>t. deepspeed_summarization env = Inr t \<longrightarrow>
        world_size env = Inr (mp_size (init_inference_call t))) \<and>
   (\<forall>t. deepspeed_translation env = Inr t \<longrightarrow>
        world_size env = Inr (mp_size (init_inference_call t)))"
proof (intro conjI allI impI)
  show "case env (str ''LOCAL_RANK'') of
      None \<Rightarrow> local_rank env = Inr 0
    | Some v \<Rightarrow>
        (\<forall>n. local_rank env = Inr n \<longleftrightarrow> int_literal v n) \<and>
        (local_rank env = Inl ValueError \<longleftrightarrow> \<not> (\<exists>n. int_literal v n)) \<and>
        (ascii_digits v \<longrightarrow> local_rank env = Inr (ascii_value v))"
    by (simp add: local_rank_def getenv_def py_int_default_rank py_int_iff
        py_int_error_iff py_int_ascii_digits split: option.split)
  show "case env (str ''WORLD_SIZE'') of
      None \<Rightarrow> world_size env = Inr 4
    | Some v \<Rightarrow>
        (\<forall>n. world_size env = Inr n \<longleftrightarrow> int_literal v n) \<and>
        (world_size env = Inl ValueError \<longleftrightarrow> \<not> (\<exists>n. int_literal v n)) \<and>
        (ascii_digits v \<longrightarrow> world_size env = Inr (ascii_value v))"
    by (simp add: world_size_def getenv_def py_int_default_size py_int_iff
        py_int_error_iff py_int_ascii_digits split: option.split)
next
  fix t assume "deepspeed_summarization env = Inr t"
  then show "world_size env = Inr (mp_size (init_inference_call t))"
    by (rule summarization_args(2))
next
  fix t assume "deepspeed_translation env = Inr t"
  then show "world_size env = Inr (mp_size (init_inference_call t))"
    by (rule translation_args(2))
qed

text \<open>The theorem at \<^term>\<open>size_env\<close>, where \<^verbatim>\<open>LOCAL_RANK\<close> is unset and
  \<^verbatim>\<open>WORLD_SIZE\<close> is \<^verbatim>\<open>16\<close>, and at \<^term>\<open>rank_env\<close>, where \<^verbatim>\<open>LOCAL_RANK\<close> is
  \<^verbatim>\<open>12\<close> and \<^verbatim>\<open>WORLD_SIZE\<close> is unset. The settings are read off the theorem; in
  \<^term>\<open>size_env\<close> both example programs reach their library calls with
  \<^verbatim>\<open>mp_size = 16\<close>.\<close>

theorem rank_settings_from_environment_witness:
  "size_env (str ''LOCAL_RANK'') = None \<and>
   size_env (str ''WORLD_SIZE'') = Some (str ''16'') \<and>
   ascii_digits (str ''16'') \<and>
   int_literal (str ''16'') 16 \<and>
   local_rank size_env = Inr 0 \<and>
   world_size size_env = Inr 16 \<and>
   deepspeed_summarization size_env = Inr size_env_summarization \<and>
   deepspeed_translation size_env = Inr size_env_translation \<and>
   world_size size_env = Inr (mp_size (init_inference_call size_env_summarization)) \<and>
   world_size size_env = Inr (mp_size (init_inference_call size_env_translation)) \<and>
   rank_env (str ''LOCAL_RANK'') = Some (str ''12'') \<and>
   rank_env (str ''WORLD_SIZE'') = None \<and>
   ascii_digits (str ''12'') \<and>
   int_literal (str ''12'') 12 \<and>
   local_rank rank_env = Inr 12 \<and>
   world_size rank_env = Inr 4"
proof -
  have s_unset: "size_env (str ''LOCAL_RANK'') = None"
    by (simp add: size_env_def str_def)
  have s_set: "size_env (str ''WORLD_SIZE'') = Some (str ''16'')"
    by (simp add: size_env_def)
  have r_set: "rank_env (str ''LOCAL_RANK'') = Some (str ''12'')"
    by (simp add: rank_env_def)
  have r_unset: "rank_env (str ''WORLD_SIZE'') = None"
    by (simp add: rank_env_def str_def)
  have d16: "ascii_digits (str ''16'')" and v16: "ascii_value (str ''16'') = 16"
    by (simp_all add: ascii_digits_def ascii_value_def decimal_value_def str_def)
  have d12: "ascii_digits (str ''12'')" and v12: "ascii_value (str ''12'') = 12"
    by (simp_all add: ascii_digits_def ascii_value_def decimal_value_def str_def)
  note at_size =
    rank_settings_from_environment [of size_env, unfolded s_unset s_set option.case]
  note at_rank =
    rank_settings_from_environment [of rank_env, unfolded r_unset r_set option.case]
  from at_size d16 v16 have lr: "local_rank size_env = Inr 0"
    and ws: "world_size size_env = Inr 16"
    by simp_all
  from at_size ws have lit16: "int_literal (str ''16'') 16"
    by blast
  from at_rank d12 v12 have lr': "local_rank rank_env = Inr 12"
    and ws': "world_size rank_env = Inr 4"
    by simp_all
  from at_rank lr' have lit12: "int_literal (str ''12'') 12"
    by blast
  have run_s: "deepspeed_summarization size_env = Inr size_env_summarization"
    by (simp add: deepspeed_summarization_def lr ws size_env_summarization_def)
  have run_t: "deepspeed_translation size_env = Inr size_env_translation"
    by (simp add: deepspeed_translation_def lr ws size_env_translation_def)
  from at_size run_s run_t
  have "world_size size_env = Inr (mp_size (init_inference_call size_env_summarization))"
    and "world_size size_env = Inr (mp_size (init_inference_call size_env_translation))"
    by blast+
  with s_unset s_set r_set r_unset d16 d12 lit16 lit12 lr ws lr' ws' run_s run_t
  show ?thesis by blast
qed

end
